theory Spec2Isabelle
  imports Main
begin

section \<open>Data model\<close>

text \<open>
  The values the handlers hand to \<^verbatim>\<open>jsonify\<close>: strings, integers, lists and
  dictionaries with string keys. A dictionary literal is kept as the list of its items
  in the order they are written. Python's integers are unbounded, hence \<^typ>\<open>int\<close>.
\<close>

datatype json =
    JString string
  | JInt int
  | JArray "json list"
  | JObject "(string \<times> json) list"

text \<open>
  What the handlers can see of the request being served. The view functions of
  \<^verbatim>\<open>app.py\<close> take no parameter; the request is the one the framework keeps for the
  duration of the call, so the model passes it as an argument.
\<close>

record request =
  req_method :: string
  req_path :: string
  req_args :: "(string \<times> string) list"
  req_headers :: "(string \<times> string) list"
  req_data :: string

text \<open>
  The state of the running process: \<^verbatim>\<open>os.environ\<close> and the configuration of the
  application object \<^verbatim>\<open>app\<close>.
\<close>

record process =
  environ :: "string \<rightharpoonup> string"
  app_config :: "string \<rightharpoonup> string"

text \<open>
  A response: its status code, its content type and the JSON document in its body.
\<close>

record response =
  status_code :: int
  mimetype :: string
  get_json :: json

type_synonym view = "request \<Rightarrow> process \<Rightarrow> response \<times> process"

section \<open>Operations\<close>

text \<open>\<^verbatim>\<open>os.environ.get(key, default)\<close>.\<close>

definition environ_get :: "process \<Rightarrow> string \<Rightarrow> string \<Rightarrow> string" where
  "environ_get s key dflt = (case environ s key of Some v \<Rightarrow> v | None \<Rightarrow> dflt)"

text \<open>
  \<^verbatim>\<open>jsonify(v)\<close> builds a response around the document \<open>v\<close>; a response built without
  an explicit status has status 200.
\<close>

definition jsonify :: "json \<Rightarrow> response" where
  "jsonify v = \<lparr>status_code = 200, mimetype = ''application/json'', get_json = v\<rparr>"

text \<open>
  A view that returns the pair \<^verbatim>\<open>(response, status)\<close> has the status set on the
  response.
\<close>

definition with_status :: "response \<Rightarrow> int \<Rightarrow> response" where
  "with_status r st = r\<lparr>status_code := st\<rparr>"

text \<open>The three view functions of \<^verbatim>\<open>app.py\<close>.\<close>

definition hello :: view where
  "hello req s =
     (jsonify (JObject
        [(''message'', JString ''Hello from CI/CD Pipeline!''),
         (''version'', JString (environ_get s ''APP_VERSION'' ''1.0.0'')),
         (''environment'', JString (environ_get s ''ENV'' ''development''))]),
      s)"

definition health :: view where
  "health req s = (with_status (jsonify (JObject [(''status'', JString ''healthy'')])) 200, s)"

definition get_data :: view where
  "get_data req s =
     (jsonify (JObject
        [(''data'', JArray [JInt 1, JInt 2, JInt 3, JInt 4, JInt 5]),
         (''count'', JInt 5)]),
      s)"

text \<open>
  The rules registered by the three \<^verbatim>\<open>@app.route\<close> decorators. A rule registered
  without a \<^verbatim>\<open>methods\<close> argument answers GET; dispatch of a GET request is what is
  modelled here, and \<open>None\<close> stands for every request that is not a GET request to one
  of the three rules.
\<close>

definition url_map :: "(string \<times> view) list" where
  "url_map = [(''/'', hello), (''/health'', health), (''/api/data'', get_data)]"

definition dispatch_request :: "request \<Rightarrow> process \<Rightarrow> (response \<times> process) option" where
  "dispatch_request req s =
     (if req_method req = ''GET''
      then (case map_of url_map (req_path req) of
              Some v \<Rightarrow> Some (v req s)
            | None \<Rightarrow> None)
      else None)"

text \<open>
  The last statement of the module: when \<^verbatim>\<open>__name__\<close> is \<^verbatim>\<open>'__main__'\<close> it calls
  \<^verbatim>\<open>app.run\<close>. The call is recorded with its keyword arguments; for any other module name
  nothing is run.
\<close>

record run_args =
  run_host :: string
  run_port :: int
  run_debug :: bool

definition module_main :: "string \<Rightarrow> run_args option" where
  "module_main name =
     (if name = ''__main__''
      then Some \<lparr>run_host = ''0.0.0.0'', run_port = 5000, run_debug = True\<rparr>
      else None)"

text \<open>
  Assignment to and deletion from \<^verbatim>\<open>os.environ\<close>, the two ways the environment of the
  running process changes between requests.
\<close>

definition setenv :: "string \<Rightarrow> string \<Rightarrow> process \<Rightarrow> process" where
  "setenv key v s = s\<lparr>environ := (environ s)(key \<mapsto> v)\<rparr>"

definition unsetenv :: "string \<Rightarrow> process \<Rightarrow> process" where
  "unsetenv key s = s\<lparr>environ := (environ s)(key := None)\<rparr>"

text \<open>Reading a response the way the tests do: the keys of a document and the item at a key.\<close>

fun json_keys :: "json \<Rightarrow> string list" where
  "json_keys (JObject kvs) = map fst kvs"
| "json_keys _ = []"

fun json_item :: "json \<Rightarrow> string \<Rightarrow> json option" where
  "json_item (JObject kvs) k = map_of kvs k"
| "json_item _ k = None"

section \<open>Unfolding the handlers\<close>

lemma hello_fst:
  "fst (hello req s) =
     \<lparr>status_code = 200, mimetype = ''application/json'',
      get_json = JObject
        [(''message'', JString ''Hello from CI/CD Pipeline!''),
         (''version'', JString (environ_get s ''APP_VERSION'' ''1.0.0'')),
         (''environment'', JString (environ_get s ''ENV'' ''development''))]\<rparr>"
  by (simp add: hello_def jsonify_def)

lemma health_fst:
  "fst (health req s) =
     \<lparr>status_code = 200, mimetype = ''application/json'',
      get_json = JObject [(''status'', JString ''healthy'')]\<rparr>"
  by (simp add: health_def with_status_def jsonify_def)

lemma get_data_fst:
  "fst (get_data req s) =
     \<lparr>status_code = 200, mimetype = ''application/json'',
      get_json = JObject
        [(''data'', JArray [JInt 1, JInt 2, JInt 3, JInt 4, JInt 5]),
         (''count'', JInt 5)]\<rparr>"
  by (simp add: get_data_def jsonify_def)

lemma view_snd:
  "snd (hello req s) = s" "snd (health req s) = s" "snd (get_data req s) = s"
  by (simp_all add: hello_def health_def get_data_def)

lemma environ_get_setenv_same: "environ_get (setenv key v s) key dflt = v"
  by (simp add: environ_get_def setenv_def)

lemma environ_get_unsetenv_same: "environ_get (unsetenv key s) key dflt = dflt"
  by (simp add: environ_get_def unsetenv_def)

section \<open>Dispatch\<close>

lemma dispatch_root:
  "req_method req = ''GET'' \<Longrightarrow> req_path req = ''/'' \<Longrightarrow>
   dispatch_request req s = Some (hello req s)"
  by (simp add: dispatch_request_def url_map_def)

lemma dispatch_health:
  "req_method req = ''GET'' \<Longrightarrow> req_path req = ''/health'' \<Longrightarrow>
   dispatch_request req s = Some (health req s)"
  by (simp add: dispatch_request_def url_map_def)

lemma dispatch_get_data:
  "req_method req = ''GET'' \<Longrightarrow> req_path req = ''/api/data'' \<Longrightarrow>
   dispatch_request req s = Some (get_data req s)"
  by (simp add: dispatch_request_def url_map_def)

section \<open>The greeting handler\<close>

text \<open>
  C1. A GET request to \<^verbatim>\<open>/\<close> is answered by the greeting handler. Whatever the request
  and the environment variables are, the handler answers with status 200 and a JSON object
  with the three keys \<^verbatim>\<open>message\<close>, \<^verbatim>\<open>version\<close> and \<^verbatim>\<open>environment\<close>, each once, and the
  item at \<^verbatim>\<open>message\<close> is the string \<^verbatim>\<open>Hello from CI/CD Pipeline!\<close>.
\<close>

theorem hello_response:
  "status_code (fst (hello req s)) = 200
   \<and> (\<exists>kvs. get_json (fst (hello req s)) = JObject kvs)
   \<and> set (json_keys (get_json (fst (hello req s)))) = {''message'', ''version'', ''environment''}
   \<and> distinct (json_keys (get_json (fst (hello req s))))
   \<and> json_item (get_json (fst (hello req s))) ''message''
       = Some (JString ''Hello from CI/CD Pipeline!'')
   \<and> (req_method req = ''GET'' \<and> req_path req = ''/''
        \<longrightarrow> dispatch_request req s = Some (hello req s))"
proof -
  have "set (json_keys (get_json (fst (hello req s)))) = {''message'', ''version'', ''environment''}"
    unfolding hello_fst by auto
  then show ?thesis
    by (simp add: dispatch_root) (simp add: hello_fst)
qed

theorem hello_response_witness:
  "req_method \<lparr>req_method = ''GET'', req_path = ''/'', req_args = [(''q'', ''1'')],
       req_headers = [], req_data = ''ignored''\<rparr> = ''GET''
   \<and> dispatch_request
       \<lparr>req_method = ''GET'', req_path = ''/'', req_args = [(''q'', ''1'')],
          req_headers = [], req_data = ''ignored''\<rparr>
       \<lparr>environ = [''ENV'' \<mapsto> ''staging''], app_config = Map.empty\<rparr>
     = Some (\<lparr>status_code = 200, mimetype = ''application/json'',
              get_json = JObject
                [(''message'', JString ''Hello from CI/CD Pipeline!''),
                 (''version'', JString ''1.0.0''),
                 (''environment'', JString ''staging'')]\<rparr>,
             \<lparr>environ = [''ENV'' \<mapsto> ''staging''], app_config = Map.empty\<rparr>)"
  using hello_response [of
      "\<lparr>req_method = ''GET'', req_path = ''/'', req_args = [(''q'', ''1'')],
          req_headers = [], req_data = ''ignored''\<rparr>"
      "\<lparr>environ = [''ENV'' \<mapsto> ''staging''], app_config = Map.empty\<rparr>"]
  by (simp add: hello_def jsonify_def environ_get_def)

text \<open>
  C2. In every process environment: when \<^verbatim>\<open>APP_VERSION\<close> is set to \<open>v\<close> the item at
  \<^verbatim>\<open>version\<close> of the greeting is \<open>v\<close>, and when it is not set the item is \<^verbatim>\<open>1.0.0\<close>;
  when \<^verbatim>\<open>ENV\<close> is set to \<open>w\<close> the item at \<^verbatim>\<open>environment\<close> is \<open>w\<close>, and when it is not
  set the item is \<^verbatim>\<open>development\<close>.
\<close>

theorem hello_version_environment:
  "(\<forall>v. environ s ''APP_VERSION'' = Some v
        \<longrightarrow> json_item (get_json (fst (hello req s))) ''version'' = Some (JString v))
   \<and> (environ s ''APP_VERSION'' = None
        \<longrightarrow> json_item (get_json (fst (hello req s))) ''version'' = Some (JString ''1.0.0''))
   \<and> (\<forall>w. environ s ''ENV'' = Some w
        \<longrightarrow> json_item (get_json (fst (hello req s))) ''environment'' = Some (JString w))
   \<and> (environ s ''ENV'' = None
        \<longrightarrow> json_item (get_json (fst (hello req s))) ''environment''
            = Some (JString ''development''))"
  by (simp add: hello_fst environ_get_def)

theorem hello_version_environment_witness:
  "environ \<lparr>environ = [''APP_VERSION'' \<mapsto> ''2.0.0''], app_config = Map.empty\<rparr> ''APP_VERSION''
     = Some ''2.0.0''
   \<and> environ \<lparr>environ = [''APP_VERSION'' \<mapsto> ''2.0.0''], app_config = Map.empty\<rparr> ''ENV'' = None
   \<and> json_item (get_json (fst (hello
        \<lparr>req_method = ''GET'', req_path = ''/'', req_args = [],
          req_headers = [], req_data = ''''\<rparr>
        \<lparr>environ = [''APP_VERSION'' \<mapsto> ''2.0.0''], app_config = Map.empty\<rparr>))) ''version''
     = Some (JString ''2.0.0'')
   \<and> json_item (get_json (fst (hello
        \<lparr>req_method = ''GET'', req_path = ''/'', req_args = [],
          req_headers = [], req_data = ''''\<rparr>
        \<lparr>environ = [''APP_VERSION'' \<mapsto> ''2.0.0''], app_config = Map.empty\<rparr>))) ''environment''
     = Some (JString ''development'')
   \<and> environ \<lparr>environ = [''ENV'' \<mapsto> ''production''], app_config = Map.empty\<rparr> ''ENV''
     = Some ''production''
   \<and> environ \<lparr>environ = [''ENV'' \<mapsto> ''production''], app_config = Map.empty\<rparr> ''APP_VERSION''
     = None
   \<and> json_item (get_json (fst (hello
        \<lparr>req_method = ''GET'', req_path = ''/'', req_args = [],
          req_headers = [], req_data = ''''\<rparr>
        \<lparr>environ = [''ENV'' \<mapsto> ''production''], app_config = Map.empty\<rparr>))) ''version''
     = Some (JString ''1.0.0'')
   \<and> json_item (get_json (fst (hello
        \<lparr>req_method = ''GET'', req_path = ''/'', req_args = [],
          req_headers = [], req_data = ''''\<rparr>
        \<lparr>environ = [''ENV'' \<mapsto> ''production''], app_config = Map.empty\<rparr>))) ''environment''
     = Some (JString ''production'')"
  using
    hello_version_environment [of
      "\<lparr>environ = [''APP_VERSION'' \<mapsto> ''2.0.0''], app_config = Map.empty\<rparr>"
      "\<lparr>req_method = ''GET'', req_path = ''/'', req_args = [],
          req_headers = [], req_data = ''''\<rparr>"]
    hello_version_environment [of
      "\<lparr>environ = [''ENV'' \<mapsto> ''production''], app_config = Map.empty\<rparr>"
      "\<lparr>req_method = ''GET'', req_path = ''/'', req_args = [],
          req_headers = [], req_data = ''''\<rparr>"]
  by simp

text \<open>
  C9. The greeting handler reads \<^verbatim>\<open>APP_VERSION\<close> and \<^verbatim>\<open>ENV\<close> when it is called, not
  when the module is loaded. After a first request has been served, setting either variable
  makes the next greeting carry the new value, whatever the variable was before, and
  deleting it makes the next greeting carry the default; a new value that differs from the
  one reported before gives a response that differs from the earlier one.
\<close>

theorem hello_reads_environ_per_request:
  "json_item (get_json (fst (hello req2 (setenv ''APP_VERSION'' v (snd (hello req1 s))))))
       ''version'' = Some (JString v)
   \<and> json_item (get_json (fst (hello req2 (setenv ''ENV'' w (snd (hello req1 s))))))
       ''environment'' = Some (JString w)
   \<and> json_item (get_json (fst (hello req2 (unsetenv ''APP_VERSION'' (snd (hello req1 s))))))
       ''version'' = Some (JString ''1.0.0'')
   \<and> json_item (get_json (fst (hello req2 (unsetenv ''ENV'' (snd (hello req1 s))))))
       ''environment'' = Some (JString ''development'')
   \<and> (json_item (get_json (fst (hello req1 s))) ''version'' \<noteq> Some (JString v)
        \<longrightarrow> fst (hello req2 (setenv ''APP_VERSION'' v (snd (hello req1 s))))
            \<noteq> fst (hello req1 s))
   \<and> (json_item (get_json (fst (hello req1 s))) ''environment'' \<noteq> Some (JString w)
        \<longrightarrow> fst (hello req2 (setenv ''ENV'' w (snd (hello req1 s))))
            \<noteq> fst (hello req1 s))"
proof -
  have v: "environ_get s ''APP_VERSION'' ''1.0.0'' \<noteq> v \<Longrightarrow>
           fst (hello req2 (setenv ''APP_VERSION'' v s)) \<noteq> fst (hello req1 s)"
    by (simp add: hello_fst environ_get_setenv_same)
  have w: "environ_get s ''ENV'' ''development'' \<noteq> w \<Longrightarrow>
           fst (hello req2 (setenv ''ENV'' w s)) \<noteq> fst (hello req1 s)"
    by (simp add: hello_fst environ_get_setenv_same)
  have items:
    "json_item (get_json (fst (hello req1 s))) ''version''
       = Some (JString (environ_get s ''APP_VERSION'' ''1.0.0''))"
    "json_item (get_json (fst (hello req1 s))) ''environment''
       = Some (JString (environ_get s ''ENV'' ''development''))"
    by (simp_all add: hello_fst)
  have fresh:
    "json_item (get_json (fst (hello req2 (setenv ''APP_VERSION'' v s)))) ''version''
       = Some (JString v)"
    "json_item (get_json (fst (hello req2 (setenv ''ENV'' w s)))) ''environment''
       = Some (JString w)"
    "json_item (get_json (fst (hello req2 (unsetenv ''APP_VERSION'' s)))) ''version''
       = Some (JString ''1.0.0'')"
    "json_item (get_json (fst (hello req2 (unsetenv ''ENV'' s)))) ''environment''
       = Some (JString ''development'')"
    by (simp_all add: hello_fst environ_get_setenv_same environ_get_unsetenv_same)
  from v w show ?thesis
    unfolding view_snd items fresh by simp
qed

theorem hello_reads_environ_per_request_witness:
  "json_item (get_json (fst (hello
        \<lparr>req_method = ''GET'', req_path = ''/'', req_args = [],
          req_headers = [], req_data = ''''\<rparr>
       \<lparr>environ = [''APP_VERSION'' \<mapsto> ''1.4.2''], app_config = Map.empty\<rparr>))) ''version''
     \<noteq> Some (JString ''2.0.0'')
   \<and> json_item (get_json (fst (hello
        \<lparr>req_method = ''GET'', req_path = ''/'', req_args = [],
          req_headers = [], req_data = ''''\<rparr>
       \<lparr>environ = [''APP_VERSION'' \<mapsto> ''1.4.2''], app_config = Map.empty\<rparr>))) ''environment''
     \<noteq> Some (JString ''production'')
   \<and> fst (hello
        \<lparr>req_method = ''GET'', req_path = ''/'', req_args = [(''v'', ''9'')],
          req_headers = [], req_data = ''''\<rparr>
       (setenv ''APP_VERSION'' ''2.0.0'' (snd (hello
        \<lparr>req_method = ''GET'', req_path = ''/'', req_args = [],
          req_headers = [], req_data = ''''\<rparr>
       \<lparr>environ = [''APP_VERSION'' \<mapsto> ''1.4.2''], app_config = Map.empty\<rparr>))))
     \<noteq> fst (hello
        \<lparr>req_method = ''GET'', req_path = ''/'', req_args = [],
          req_headers = [], req_data = ''''\<rparr>
        \<lparr>environ = [''APP_VERSION'' \<mapsto> ''1.4.2''], app_config = Map.empty\<rparr>)
   \<and> fst (hello
        \<lparr>req_method = ''GET'', req_path = ''/'', req_args = [(''v'', ''9'')],
          req_headers = [], req_data = ''''\<rparr>
       (setenv ''ENV'' ''production'' (snd (hello
        \<lparr>req_method = ''GET'', req_path = ''/'', req_args = [],
          req_headers = [], req_data = ''''\<rparr>
       \<lparr>environ = [''APP_VERSION'' \<mapsto> ''1.4.2''], app_config = Map.empty\<rparr>))))
     \<noteq> fst (hello
        \<lparr>req_method = ''GET'', req_path = ''/'', req_args = [],
          req_headers = [], req_data = ''''\<rparr>
        \<lparr>environ = [''APP_VERSION'' \<mapsto> ''1.4.2''], app_config = Map.empty\<rparr>)"
  using hello_reads_environ_per_request [of
      "\<lparr>req_method = ''GET'', req_path = ''/'', req_args = [(''v'', ''9'')],
          req_headers = [], req_data = ''''\<rparr>"
      "''2.0.0''"
      "\<lparr>req_method = ''GET'', req_path = ''/'', req_args = [],
          req_headers = [], req_data = ''''\<rparr>"
      "\<lparr>environ = [''APP_VERSION'' \<mapsto> ''1.4.2''], app_config = Map.empty\<rparr>" "''production''"]
  by (simp add: hello_def jsonify_def environ_get_def)

section \<open>The health handler\<close>

text \<open>
  C3. A GET request to \<^verbatim>\<open>/health\<close> is answered by the health handler, and the health
  handler answers every request, in every process state, with status 200 and the document
  \<^verbatim>\<open>{"status": "healthy"}\<close>.
\<close>

theorem health_response:
  "status_code (fst (health req s)) = 200
   \<and> get_json (fst (health req s)) = JObject [(''status'', JString ''healthy'')]
   \<and> (req_method req = ''GET'' \<and> req_path req = ''/health''
        \<longrightarrow> dispatch_request req s = Some (health req s))"
  by (simp add: dispatch_health) (simp add: health_fst)

theorem health_response_witness:
  "req_path \<lparr>req_method = ''GET'', req_path = ''/health'', req_args = [],
       req_headers = [(''Accept'', ''*/*'')], req_data = ''''\<rparr> = ''/health''
   \<and> dispatch_request
       \<lparr>req_method = ''GET'', req_path = ''/health'', req_args = [],
          req_headers = [(''Accept'', ''*/*'')], req_data = ''''\<rparr>
       \<lparr>environ = Map.empty, app_config = Map.empty\<rparr>
     = Some (\<lparr>status_code = 200, mimetype = ''application/json'',
              get_json = JObject [(''status'', JString ''healthy'')]\<rparr>,
             \<lparr>environ = Map.empty, app_config = Map.empty\<rparr>)"
  using health_response [of
      "\<lparr>req_method = ''GET'', req_path = ''/health'', req_args = [],
          req_headers = [(''Accept'', ''*/*'')], req_data = ''''\<rparr>"
      "\<lparr>environ = Map.empty, app_config = Map.empty\<rparr>"]
  by (simp add: health_def with_status_def jsonify_def)

section \<open>The data handler\<close>

text \<open>
  C4. A GET request to \<^verbatim>\<open>/api/data\<close> is answered by the data handler, and the data
  handler answers every request, in every process state, with status 200 and a JSON object
  whose item at \<^verbatim>\<open>data\<close> is the list of the five integers 1, 2, 3, 4, 5 and whose item at
  \<^verbatim>\<open>count\<close> is 5.
\<close>

theorem get_data_response:
  "status_code (fst (get_data req s)) = 200
   \<and> (\<exists>kvs. get_json (fst (get_data req s)) = JObject kvs)
   \<and> json_item (get_json (fst (get_data req s))) ''data''
       = Some (JArray [JInt 1, JInt 2, JInt 3, JInt 4, JInt 5])
   \<and> json_item (get_json (fst (get_data req s))) ''count'' = Some (JInt 5)
   \<and> (req_method req = ''GET'' \<and> req_path req = ''/api/data''
        \<longrightarrow> dispatch_request req s = Some (get_data req s))"
  by (simp add: dispatch_get_data) (simp add: get_data_fst)

theorem get_data_response_witness:
  "req_method \<lparr>req_method = ''GET'', req_path = ''/api/data'', req_args = [(''limit'', ''2'')],
       req_headers = [], req_data = ''''\<rparr> = ''GET''
   \<and> dispatch_request
       \<lparr>req_method = ''GET'', req_path = ''/api/data'', req_args = [(''limit'', ''2'')],
          req_headers = [], req_data = ''''\<rparr>
       \<lparr>environ = Map.empty, app_config = [''TESTING'' \<mapsto> ''True'']\<rparr>
     = Some (\<lparr>status_code = 200, mimetype = ''application/json'',
              get_json = JObject
                [(''data'', JArray [JInt 1, JInt 2, JInt 3, JInt 4, JInt 5]),
                 (''count'', JInt 5)]\<rparr>,
             \<lparr>environ = Map.empty, app_config = [''TESTING'' \<mapsto> ''True'']\<rparr>)"
  using get_data_response [of
      "\<lparr>req_method = ''GET'', req_path = ''/api/data'', req_args = [(''limit'', ''2'')],
          req_headers = [], req_data = ''''\<rparr>"
      "\<lparr>environ = Map.empty, app_config = [''TESTING'' \<mapsto> ''True'']\<rparr>"]
  by (simp add: get_data_def jsonify_def)

text \<open>
  C5. In every response of the data handler the item at \<^verbatim>\<open>count\<close> is the length of the
  list at \<^verbatim>\<open>data\<close>.
\<close>

theorem get_data_count_is_length:
  "\<exists>xs. json_item (get_json (fst (get_data req s))) ''data'' = Some (JArray xs)
        \<and> json_item (get_json (fst (get_data req s))) ''count'' = Some (JInt (int (length xs)))"
  by (simp add: get_data_fst)

section \<open>Requests and process state\<close>

text \<open>
  C6. Each handler is a function of the process environment alone: two calls of the same
  handler in process states with the same environment variables give the same response
  (status, content type and document), whatever the two requests are and whatever else
  differs between the two states. For the health and the data handler the environments
  may differ as well.
\<close>

theorem handlers_ignore_request:
  "(environ s = environ s' \<longrightarrow> fst (hello req s) = fst (hello req' s'))
   \<and> fst (health req s) = fst (health req' s')
   \<and> fst (get_data req s) = fst (get_data req' s')"
  by (simp add: hello_fst health_fst get_data_fst environ_get_def)

theorem handlers_ignore_request_witness:
  "environ \<lparr>environ = [''ENV'' \<mapsto> ''qa''], app_config = Map.empty\<rparr>
     = environ \<lparr>environ = [''ENV'' \<mapsto> ''qa''], app_config = [''TESTING'' \<mapsto> ''True'']\<rparr>
   \<and> fst (hello \<lparr>req_method = ''GET'', req_path = ''/'', req_args = [],
                  req_headers = [], req_data = ''''\<rparr>
               \<lparr>environ = [''ENV'' \<mapsto> ''qa''], app_config = Map.empty\<rparr>)
     = fst (hello \<lparr>req_method = ''GET'', req_path = ''/'', req_args = [(''name'', ''x'')],
                    req_headers = [(''X-Debug'', ''1'')], req_data = ''payload''\<rparr>
               \<lparr>environ = [''ENV'' \<mapsto> ''qa''], app_config = [''TESTING'' \<mapsto> ''True'']\<rparr>)"
  using handlers_ignore_request [of
      "\<lparr>environ = [''ENV'' \<mapsto> ''qa''], app_config = Map.empty\<rparr>"
      "\<lparr>environ = [''ENV'' \<mapsto> ''qa''], app_config = [''TESTING'' \<mapsto> ''True'']\<rparr>"
      "\<lparr>req_method = ''GET'', req_path = ''/'', req_args = [],
         req_headers = [], req_data = ''''\<rparr>"
      "\<lparr>req_method = ''GET'', req_path = ''/'', req_args = [(''name'', ''x'')],
         req_headers = [(''X-Debug'', ''1'')], req_data = ''payload''\<rparr>"]
  by simp

text \<open>
  C7. No handler has a side effect: the process state after a call of \<^verbatim>\<open>hello\<close>,
  \<^verbatim>\<open>health\<close> or \<^verbatim>\<open>get_data\<close>, environment variables and application configuration
  alike, is the state before the call.
\<close>

theorem handlers_no_side_effects:
  "snd (hello req s) = s \<and> snd (health req s) = s \<and> snd (get_data req s) = s"
  by (simp add: hello_def health_def get_data_def)

section \<open>The main program\<close>

text \<open>
  C8. Run as the main program, the module starts the development server on host
  \<^verbatim>\<open>0.0.0.0\<close>, that is on all interfaces, and port 5000.
\<close>

theorem main_runs_on_all_interfaces_port_5000:
  "\<exists>a. module_main ''__main__'' = Some a \<and> run_host a = ''0.0.0.0'' \<and> run_port a = 5000"
  by (simp add: module_main_def)

text \<open>
  C10. Run as the main program, the module starts the development server with debug mode
  switched on.
\<close>

theorem main_runs_with_debug:
  "\<exists>a. module_main ''__main__'' = Some a \<and> run_debug a = True"
  by (simp add: module_main_def)

end
